theory Spec2Isabelle
  imports Main
begin

section \<open>Python values, exceptions and the log\<close>

text \<open>
  The module \<^verbatim>\<open>gh_cli.py\<close> wraps the GitHub command line tool. Its four operations
  build an argument list, run it with \<^verbatim>\<open>subprocess.check_output\<close>, and log what
  happened. The model is a state-and-exception monad over a world that holds the files of
  the working directory, the log, and the list of the subprocess invocations made so far.

  A Python \<^verbatim>\<open>str\<close> is a \<^typ>\<open>string\<close>, the bytes of its UTF-8 encoding;
  \<^verbatim>\<open>bytes\<close> are a list of octets, also a \<^typ>\<open>string\<close>. Joining, splitting at an ASCII
  character and taking a prefix are the same on the encoding as on the characters.
  \<^verbatim>\<open>str.upper\<close> and \<^verbatim>\<open>str.strip\<close> follow the Unicode character database; they are
  parameters of the model, like the other library functions. The parameter
  \<^verbatim>\<open>pr_number\<close> is a \<^verbatim>\<open>str\<close>, as annotated in the source.
\<close>

type_synonym bytes = string

text \<open>What \<^verbatim>\<open>json.loads\<close> returns: \<open>JNull\<close> is Python's \<^verbatim>\<open>None\<close>, \<open>JObj\<close> a dict.\<close>

datatype json =
    JNull
  | JBool bool
  | JInt int
  | JFloat string
  | JStr string
  | JArr "json list"
  | JObj "(string \<times> json) list"

text \<open>
  The exceptions the operations can meet, each a subclass of \<^verbatim>\<open>Exception\<close>.
  \<open>CalledProcessError\<close> carries the return code of the external tool. What is not an
  \<^verbatim>\<open>Exception\<close> (\<^verbatim>\<open>KeyboardInterrupt\<close>, \<^verbatim>\<open>SystemExit\<close>) is not modelled.
\<close>

datatype exn =
    CalledProcessError int
  | OSError string
  | ValueError string
  | UnicodeError string
  | JSONDecodeError string
  | KeyError string
  | TypeError string
  | AttributeError string

text \<open>
  A log record is a level and the message, kept as the pieces of the source's f-string:
  the literal text and the interpolated values.
\<close>

datatype level = INFO | ERROR

datatype frag =
    Lit string
  | FStr string
  | FBool bool
  | FInt int
  | FExn exn
  | FLabels "string list option"
  | FVal json

type_synonym log_record = "level \<times> frag list"

section \<open>The world and the environment\<close>

text \<open>
  An invocation is one call of \<^verbatim>\<open>subprocess.check_output\<close>: the argument list, and the
  files of the working directory at that moment.
\<close>

record invocation =
  cmd :: "string list"
  files_at :: "string \<rightharpoonup> string"

record world =
  files :: "string \<rightharpoonup> string"
  log :: "log_record list"
  calls :: "invocation list"

text \<open>
  Opening a file for writing and writing a text to it either succeeds, fails at
  \<^verbatim>\<open>open\<close> (the file is left as it was), or fails while writing (the file holds some
  part of the text).
\<close>

datatype write_outcome =
    Written
  | OpenFailed exn
  | WriteFailed exn string

text \<open>
  What the program does not decide is a parameter: the outcome of the external tool (it
  may depend on the invocations made before, on the argument list and on the files), of
  decoding bytes as UTF-8, of parsing JSON, and of writing a file, and what
  \<^verbatim>\<open>str.upper\<close> and \<^verbatim>\<open>str.strip\<close> return (they never raise). The tool is taken not
  to touch the files of the working directory. An invocation is recorded when
  \<^verbatim>\<open>check_output\<close> is called, also when the call then raises.
\<close>

record env =
  subprocess_check_output :: "invocation list \<Rightarrow> string list \<Rightarrow> (string \<rightharpoonup> string) \<Rightarrow> exn + bytes"
  bytes_decode :: "bytes \<Rightarrow> exn + string"
  json_loads :: "string \<Rightarrow> exn + json"
  open_write :: "(string \<rightharpoonup> string) \<Rightarrow> string \<Rightarrow> string \<Rightarrow> write_outcome"
  str_upper :: "string \<Rightarrow> string"
  str_strip :: "string \<Rightarrow> string"

section \<open>Computations that change the world and may raise\<close>

type_synonym 'a py = "world \<Rightarrow> (exn + 'a) \<times> world"

definition py_return :: "'a \<Rightarrow> 'a py" where
  "py_return x s = (Inr x, s)"

definition py_bind :: "'a py \<Rightarrow> ('a \<Rightarrow> 'b py) \<Rightarrow> 'b py" where
  "py_bind m f s = (case m s of (Inl e, s') \<Rightarrow> (Inl e, s') | (Inr x, s') \<Rightarrow> f x s')"

text \<open>\<^verbatim>\<open>try: m  except ...: h e\<close>, for a handler that takes every exception.\<close>

definition py_try :: "'a py \<Rightarrow> (exn \<Rightarrow> 'a py) \<Rightarrow> 'a py" where
  "py_try m h s = (case m s of (Inl e, s') \<Rightarrow> h e s' | (Inr x, s') \<Rightarrow> (Inr x, s'))"

definition logger_info :: "frag list \<Rightarrow> unit py" where
  "logger_info m s = (Inr (), s\<lparr>log := log s @ [(INFO, m)]\<rparr>)"

definition logger_error :: "frag list \<Rightarrow> unit py" where
  "logger_error m s = (Inr (), s\<lparr>log := log s @ [(ERROR, m)]\<rparr>)"

definition check_output :: "env \<Rightarrow> string list \<Rightarrow> bytes py" where
  "check_output E c s =
     (subprocess_check_output E (calls s) c (files s),
      s\<lparr>calls := calls s @ [\<lparr>cmd = c, files_at = files s\<rparr>]\<rparr>)"

definition decode :: "env \<Rightarrow> bytes \<Rightarrow> string py" where
  "decode E b s = (bytes_decode E b, s)"

definition loads :: "env \<Rightarrow> string \<Rightarrow> json py" where
  "loads E t s = (json_loads E t, s)"

definition write_file :: "env \<Rightarrow> string \<Rightarrow> string \<Rightarrow> unit py" where
  "write_file E name t s =
     (case open_write E (files s) name t of
        Written \<Rightarrow> (Inr (), s\<lparr>files := (files s)(name \<mapsto> t)\<rparr>)
      | OpenFailed e \<Rightarrow> (Inl e, s)
      | WriteFailed e part \<Rightarrow> (Inl e, s\<lparr>files := (files s)(name \<mapsto> part)\<rparr>))"

section \<open>Strings\<close>

text \<open>\<^verbatim>\<open>sep.join(xs)\<close>\<close>

fun join :: "string \<Rightarrow> string list \<Rightarrow> string" where
  "join sep [] = []"
| "join sep [x] = x"
| "join sep (x # y # ys) = x @ sep @ join sep (y # ys)"

text \<open>\<^verbatim>\<open>s.startswith(p)\<close>\<close>

definition startswith :: "string \<Rightarrow> string \<Rightarrow> bool" where
  "startswith s p = (take (length p) s = p)"

section \<open>The operations\<close>

definition EXECUTABLE :: string where
  "EXECUTABLE = ''gh''"

subsection \<open>\<^verbatim>\<open>pr_label\<close>\<close>

text \<open>
  The \<^verbatim>\<open>try\<close> block of \<^verbatim>\<open>pr_label\<close>: run the command and log its output; any
  exception is logged.
\<close>

definition pr_label_run :: "env \<Rightarrow> string list \<Rightarrow> unit py" where
  "pr_label_run E c =
     py_try
       (py_bind (check_output E c) (\<lambda>result.
        py_bind (decode E result) (\<lambda>t.
        logger_info [FStr t])))
       (\<lambda>e. logger_error [Lit ''Failed to label: '', FExn e])"

text \<open>
  \<^verbatim>\<open>if add_labels: ... elif remove_labels: ... else: return\<close>. An optional list is
  true when it is a list with an element.
\<close>

definition pr_label :: "env \<Rightarrow> string list option \<Rightarrow> string list option \<Rightarrow> string \<Rightarrow> unit py" where
  "pr_label E add_labels remove_labels pr_number =
     py_bind
       (logger_info [Lit ''Labeling PR: #'', FStr pr_number, Lit '', add_labels: '',
                     FLabels add_labels, Lit '', remove_labels: '', FLabels remove_labels])
       (\<lambda>_. case add_labels of
          Some (a # as) \<Rightarrow>
            pr_label_run E
              ([EXECUTABLE, ''pr'', ''edit'', pr_number] @ [''--add-label'', join '','' (a # as)])
        | _ \<Rightarrow>
          (case remove_labels of
             Some (r # rs) \<Rightarrow>
               pr_label_run E
                 ([EXECUTABLE, ''pr'', ''edit'', pr_number] @ [''--remove-label'', join '','' (r # rs)])
           | _ \<Rightarrow> logger_info [Lit ''No labels to add or remove, skipping'']))"

subsection \<open>\<^verbatim>\<open>pr_comment\<close>\<close>

text \<open>
  The body goes to the file \<^verbatim>\<open>reply.md\<close>, then the tool is run on that file. The two
  \<^verbatim>\<open>except\<close> clauses take every exception; they differ in the message.
\<close>

definition pr_comment :: "env \<Rightarrow> string \<Rightarrow> bool \<Rightarrow> string \<Rightarrow> unit py" where
  "pr_comment E body edit_last pr_number =
     py_try
       (py_bind
          (logger_info [Lit ''Commenting on PR: #'', FStr pr_number,
                        Lit '', edit_last: '', FBool edit_last])
          (\<lambda>_.
        let body_file = ''reply.md'' in
        py_bind (write_file E body_file body) (\<lambda>_.
        let c = [EXECUTABLE, ''pr'', ''comment'', pr_number, ''--body-file'', body_file]
                  @ (if edit_last then [''--edit-last''] else []) in
        py_bind (check_output E c) (\<lambda>result.
        py_bind (decode E result) (\<lambda>t.
        logger_info [FStr t])))))
       (\<lambda>e. case e of
          CalledProcessError returncode \<Rightarrow>
            logger_error [Lit ''Failed to comment: returned '', FInt returncode, Lit ''.'']
        | _ \<Rightarrow> logger_error [Lit ''Failed to comment: '', FExn e])"

subsection \<open>\<^verbatim>\<open>pr_update_or_comment\<close>\<close>

text \<open>The command that asks whether a comment of the user carries the sign.\<close>

definition view_cmd :: "string \<Rightarrow> string \<Rightarrow> string \<Rightarrow> string list" where
  \<open>view_cmd user pr_number sign =
     [EXECUTABLE, ''pr'', ''view'', pr_number, ''--json'', ''comments'', ''--jq'',
      ''.comments | any(.author.login == "'' @ user @ ''" and (.body | contains("'' @ sign @ ''")))'']\<close>

definition pr_update_or_comment :: "env \<Rightarrow> string \<Rightarrow> string \<Rightarrow> string \<Rightarrow> string \<Rightarrow> unit py" where
  "pr_update_or_comment E user body pr_number sign =
     py_try
       (py_bind (check_output E (view_cmd user pr_number sign)) (\<lambda>result.
        py_bind (decode E result) (\<lambda>t.
        if startswith t ''true'' then
          py_bind
            (logger_info [Lit ''Updating last comment of '', FStr user,
                          Lit '' on PR: #'', FStr pr_number])
            (\<lambda>_. pr_comment E body True pr_number)
        else pr_comment E body False pr_number)))
       (\<lambda>e. case e of
          CalledProcessError returncode \<Rightarrow>
            logger_error [Lit ''Failed to check last comment: returned '', FInt returncode, Lit ''.'']
        | _ \<Rightarrow> logger_error [Lit ''Failed to check last comment: '', FExn e])"

subsection \<open>\<^verbatim>\<open>check_contributor\<close>\<close>

text \<open>\<^verbatim>\<open>s.split(c)\<close> for a separator of one ASCII character.\<close>

fun split_on :: "char \<Rightarrow> string \<Rightarrow> string list" where
  "split_on c [] = [[]]"
| "split_on c (x # xs) =
     (if x = c then [] # split_on c xs
      else (case split_on c xs of [] \<Rightarrow> [[x]] | w # ws \<Rightarrow> (x # w) # ws))"

definition CATALOGUE_REPO :: "string list" where
  "CATALOGUE_REPO = split_on (CHR ''/'') ''MCDReforged/PluginCatalogue''"

text \<open>The GraphQL query: the lines of the f-string, stripped and joined by a space.\<close>

definition query_text :: "string \<Rightarrow> string" where
  \<open>query_text pr_number =
     join [CHR 0x0A]
       [[],
        ''    {'',
        ''      repository(owner: "'' @ CATALOGUE_REPO ! 0 @ ''", name: "'' @ CATALOGUE_REPO ! 1 @ ''") {'',
        ''        pullRequest(number: '' @ pr_number @ '') {'',
        ''          author {'',
        ''            login'',
        ''          }'',
        ''          authorAssociation'',
        ''        }'',
        ''      }'',
        ''    }'',
        ''    '']\<close>

definition query :: "env \<Rightarrow> string \<Rightarrow> string" where
  "query E pr_number =
     join '' '' (map (str_strip E) (split_on (CHR 0x0A) (query_text pr_number)))"

text \<open>
  \<^verbatim>\<open>v[k]\<close> for a string key: a dict gives the value or raises \<^verbatim>\<open>KeyError\<close>; every
  other value raises \<^verbatim>\<open>TypeError\<close>.
\<close>

fun getitem :: "json \<Rightarrow> string \<Rightarrow> exn + json" where
  "getitem (JObj kvs) k = (case map_of kvs k of None \<Rightarrow> Inl (KeyError k) | Some v \<Rightarrow> Inr v)"
| "getitem (JArr _) k = Inl (TypeError ''list indices must be integers or slices, not str'')"
| "getitem (JStr _) k = Inl (TypeError ''string indices must be integers, not str'')"
| "getitem _ k = Inl (TypeError ''object is not subscriptable'')"

text \<open>\<^verbatim>\<open>v[k1][k2]...\<close>, from left to right.\<close>

fun subscripts :: "json \<Rightarrow> string list \<Rightarrow> exn + json" where
  "subscripts v [] = Inr v"
| "subscripts v (k # ks) = (case getitem v k of Inl e \<Rightarrow> Inl e | Inr w \<Rightarrow> subscripts w ks)"

text \<open>\<^verbatim>\<open>v.upper()\<close>: only a \<^verbatim>\<open>str\<close> has the method.\<close>

fun upper_method :: "env \<Rightarrow> json \<Rightarrow> exn + string" where
  "upper_method E (JStr s) = Inr (str_upper E s)"
| "upper_method E _ = Inl (AttributeError ''object has no attribute upper'')"

definition py_lift :: "exn + 'a \<Rightarrow> 'a py" where
  "py_lift r s = (r, s)"

definition contributor_cmd :: "env \<Rightarrow> string \<Rightarrow> string list" where
  "contributor_cmd E pr_number =
     [''gh'', ''api'', ''graphql'', ''-F'', ''query='' @ query E pr_number]"

definition login_path :: "string list" where
  "login_path = [''data'', ''repository'', ''pullRequest'', ''author'', ''login'']"

definition association_path :: "string list" where
  "association_path = [''data'', ''repository'', ''pullRequest'', ''authorAssociation'']"

definition check_contributor :: "env \<Rightarrow> string \<Rightarrow> (json \<times> bool) py" where
  "check_contributor E pr_number =
     py_bind (logger_info [Lit ''Checking contributor for PR: #'', FStr pr_number]) (\<lambda>_.
     py_try
       (py_bind (check_output E (contributor_cmd E pr_number)) (\<lambda>result.
        py_bind (decode E result) (\<lambda>t.
        py_bind (loads E t) (\<lambda>result_json.
        py_bind (py_lift (subscripts result_json login_path)) (\<lambda>author_login.
        py_bind (py_lift (subscripts result_json association_path)) (\<lambda>association.
        py_bind (py_lift (upper_method E association)) (\<lambda>u.
        let is_first_time = (u = ''FIRST_TIME_CONTRIBUTOR'') in
        py_bind
          (logger_info [Lit ''Contributor: '', FVal author_login,
                        Lit '', First Time: '', FBool is_first_time])
          (\<lambda>_. py_return (author_login, is_first_time)))))))))
       (\<lambda>e. py_bind (logger_error [Lit ''Failed to fetch contributor data: '', FExn e])
          (\<lambda>_. py_return (JNull, False))))"

section \<open>Notions of the specification\<close>

text \<open>
  The field of a JSON document at a path of keys: present when every step is a key of an
  object.
\<close>

fun field :: "json \<Rightarrow> string list \<Rightarrow> json option" where
  "field v [] = Some v"
| "field (JObj kvs) (k # ks) = (case map_of kvs k of None \<Rightarrow> None | Some w \<Rightarrow> field w ks)"
| "field _ (k # ks) = None"

text \<open>Whether a value is a \<^verbatim>\<open>str\<close>.\<close>

fun is_str :: "json \<Rightarrow> bool" where
  "is_str (JStr s) = True"
| "is_str _ = False"

text \<open>
  What \<^verbatim>\<open>check_contributor\<close> has in \<^verbatim>\<open>result_json\<close> when the tool succeeds, its output
  decodes and parses; otherwise the exception that ends the \<^verbatim>\<open>try\<close> block there.
\<close>

definition fetched :: "env \<Rightarrow> string \<Rightarrow> world \<Rightarrow> exn + json" where
  "fetched E pr_number s =
     (case subprocess_check_output E (calls s) (contributor_cmd E pr_number) (files s) of
        Inl e \<Rightarrow> Inl e
      | Inr out \<Rightarrow> (case bytes_decode E out of Inl e \<Rightarrow> Inl e | Inr t \<Rightarrow> json_loads E t))"

text \<open>The messages of the two \<^verbatim>\<open>except\<close> clauses, by the exception caught.\<close>

definition comment_failed :: "exn \<Rightarrow> frag list" where
  "comment_failed e =
     (case e of
        CalledProcessError returncode \<Rightarrow>
          [Lit ''Failed to comment: returned '', FInt returncode, Lit ''.'']
      | _ \<Rightarrow> [Lit ''Failed to comment: '', FExn e])"

definition check_failed :: "exn \<Rightarrow> frag list" where
  "check_failed e =
     (case e of
        CalledProcessError returncode \<Rightarrow>
          [Lit ''Failed to check last comment: returned '', FInt returncode, Lit ''.'']
      | _ \<Rightarrow> [Lit ''Failed to check last comment: '', FExn e])"

section \<open>Example runs\<close>

text \<open>
  A fresh working directory, and an environment in which the tool gives one fixed outcome,
  every output decodes to itself, writing succeeds, and the parser knows one document.
  Its \<^verbatim>\<open>str.upper\<close> and \<^verbatim>\<open>str.strip\<close> are Python's on ASCII strings: upper maps
  \<^verbatim>\<open>a\<close>..\<^verbatim>\<open>z\<close> to \<^verbatim>\<open>A\<close>..\<^verbatim>\<open>Z\<close>, strip drops the ASCII whitespace at both ends. Upper
  also knows one string that is not ASCII: \<^verbatim>\<open>first_time_contributor\<close> written with the
  dotless i (U+0131, the bytes C4 B1), whose upper case in Python is
  \<^verbatim>\<open>FIRST_TIME_CONTRIBUTOR\<close>. Other strings that are not ASCII do not occur in the examples.
\<close>

definition dotless_association :: string where
  "dotless_association =
     ''f'' @ [CHR 0xC4, CHR 0xB1] @ ''rst_t'' @ [CHR 0xC4, CHR 0xB1] @ ''me_contr''
       @ [CHR 0xC4, CHR 0xB1] @ ''butor''"

definition ascii_upper_char :: "char \<Rightarrow> char" where
  "ascii_upper_char c =
     (case map_of (zip ''abcdefghijklmnopqrstuvwxyz'' ''ABCDEFGHIJKLMNOPQRSTUVWXYZ'') c of
        None \<Rightarrow> c
      | Some d \<Rightarrow> d)"

definition example_upper :: "string \<Rightarrow> string" where
  "example_upper s =
     (if s = dotless_association then ''FIRST_TIME_CONTRIBUTOR'' else map ascii_upper_char s)"

definition ascii_space :: "char \<Rightarrow> bool" where
  "ascii_space c = (c \<in> set [CHR 0x09, CHR 0x0A, CHR 0x0B, CHR 0x0C, CHR 0x0D,
                              CHR 0x1C, CHR 0x1D, CHR 0x1E, CHR 0x1F, CHR 0x20])"

definition example_strip :: "string \<Rightarrow> string" where
  "example_strip s = rev (dropWhile ascii_space (rev (dropWhile ascii_space s)))"

definition example_world :: world where
  "example_world = \<lparr>files = Map.empty, log = [], calls = []\<rparr>"

definition parse_only :: "string \<Rightarrow> json \<Rightarrow> string \<Rightarrow> exn + json" where
  "parse_only text doc t = (if t = text then Inr doc else Inl (JSONDecodeError t))"

definition example_env :: "(exn + bytes) \<Rightarrow> (string \<Rightarrow> exn + json) \<Rightarrow> env" where
  "example_env out parse =
     \<lparr>subprocess_check_output = (\<lambda>h c f. out), bytes_decode = Inr,
      json_loads = parse, open_write = (\<lambda>f n t. Written),
      str_upper = example_upper, str_strip = example_strip\<rparr>"

definition example_doc :: "json \<Rightarrow> json \<Rightarrow> json" where
  "example_doc l a =
     JObj [(''data'', JObj [(''repository'', JObj [(''pullRequest'',
       JObj [(''author'', JObj [(''login'', l)]), (''authorAssociation'', a)])])])]"

text \<open>The answer of the tool for a pull request whose author has a null login.\<close>

definition null_login_text :: string where
  \<open>null_login_text =
     ''{"data":{"repository":{"pullRequest":{"author":{"login":null},"authorAssociation":"FIRST_TIME_CONTRIBUTOR"}}}}''\<close>

definition alex_text :: string where
  \<open>alex_text =
     ''{"data":{"repository":{"pullRequest":{"author":{"login":"Alex326"},"authorAssociation":"first_time_contributor"}}}}''\<close>

definition dotless_text :: string where
  \<open>dotless_text =
     ''{"data":{"repository":{"pullRequest":{"author":{"login":"Alex326"},"authorAssociation":"''
       @ dotless_association @ ''"}}}}''\<close>

definition null_association_text :: string where
  \<open>null_association_text =
     ''{"data":{"repository":{"pullRequest":{"author":{"login":"Alex326"},"authorAssociation":null}}}}''\<close>

definition member_text :: string where
  \<open>member_text =
     ''{"data":{"repository":{"pullRequest":{"author":{"login":"Fallen_Breath"},"authorAssociation":"MEMBER"}}}}''\<close>

definition no_login_text :: string where
  \<open>no_login_text =
     ''{"data":{"repository":{"pullRequest":{"author":null,"authorAssociation":"NONE"}}}}''\<close>

definition no_login_doc :: json where
  "no_login_doc =
     JObj [(''data'', JObj [(''repository'', JObj [(''pullRequest'',
       JObj [(''author'', JNull), (''authorAssociation'', JStr ''NONE'')])])])]"

text \<open>
  The environments of the examples: the query answers \<^verbatim>\<open>true\<close> or \<^verbatim>\<open>false\<close>, the
  tool exits with code 1, the tool prints something that is not JSON, the tool answers for
  a first-time contributor (in lower case, and with the dotless i), for a member, for a
  null association, for an author with a null login, and for a deleted author; and one in
  which the disk is full.
\<close>

definition env_true :: env where
  "env_true = example_env (Inr (''true'' @ [CHR 0x0A])) (parse_only [] JNull)"

definition env_false :: env where
  "env_false = example_env (Inr (''false'' @ [CHR 0x0A])) (parse_only [] JNull)"

definition env_exit1 :: env where
  "env_exit1 = example_env (Inl (CalledProcessError 1)) (parse_only [] JNull)"

definition env_malformed :: env where
  "env_malformed = example_env (Inr ''gh: not json'') (parse_only [] JNull)"

definition env_alex :: env where
  "env_alex = example_env (Inr alex_text)
     (parse_only alex_text (example_doc (JStr ''Alex326'') (JStr ''first_time_contributor'')))"

definition env_dotless :: env where
  "env_dotless = example_env (Inr dotless_text)
     (parse_only dotless_text (example_doc (JStr ''Alex326'') (JStr dotless_association)))"

definition env_null_association :: env where
  "env_null_association = example_env (Inr null_association_text)
     (parse_only null_association_text (example_doc (JStr ''Alex326'') JNull))"

definition env_member :: env where
  "env_member = example_env (Inr member_text)
     (parse_only member_text (example_doc (JStr ''Fallen_Breath'') (JStr ''MEMBER'')))"

definition env_null_login :: env where
  "env_null_login = example_env (Inr null_login_text)
     (parse_only null_login_text (example_doc JNull (JStr ''FIRST_TIME_CONTRIBUTOR'')))"

definition env_no_login :: env where
  "env_no_login = example_env (Inr no_login_text) (parse_only no_login_text no_login_doc)"

definition env_disk_full :: env where
  "env_disk_full = env_true\<lparr>open_write := (\<lambda>f n t. OpenFailed (OSError ''No space left on device''))\<rparr>"

section \<open>Basic facts\<close>

lemmas py_defs = py_return_def py_bind_def py_try_def py_lift_def logger_info_def
  logger_error_def check_output_def decode_def loads_def write_file_def

subsection \<open>Strings\<close>

lemma join_comma_split:
  "join '','' (xs @ [a @ '','' @ b] @ ys) = join '','' (xs @ [a, b] @ ys)"
proof (induction xs)
  case Nil
  show ?case by (cases ys) simp_all
next
  case (Cons x xs)
  then show ?case by (cases xs) simp_all
qed

subsection \<open>\<^verbatim>\<open>pr_label\<close>\<close>

lemma pr_label_run_world:
  "pr_label_run E c s =
     (Inr (),
      s\<lparr>calls := calls s @ [\<lparr>cmd = c, files_at = files s\<rparr>],
        log := log s @
          [case subprocess_check_output E (calls s) c (files s) of
             Inl e \<Rightarrow> (ERROR, [Lit ''Failed to label: '', FExn e])
           | Inr out \<Rightarrow>
               (case bytes_decode E out of
                  Inl e \<Rightarrow> (ERROR, [Lit ''Failed to label: '', FExn e])
                | Inr t \<Rightarrow> (INFO, [FStr t]))]\<rparr>)"
  by (simp add: pr_label_run_def py_defs split: sum.splits)

lemma pr_label_calls:
  "calls (snd (pr_label E add_labels remove_labels pr_number s)) =
     calls s @
     (if add_labels \<notin> {None, Some []} then
        [\<lparr>cmd = [''gh'', ''pr'', ''edit'', pr_number, ''--add-label'', join '','' (the add_labels)],
          files_at = files s\<rparr>]
      else if remove_labels \<notin> {None, Some []} then
        [\<lparr>cmd = [''gh'', ''pr'', ''edit'', pr_number, ''--remove-label'', join '','' (the remove_labels)],
          files_at = files s\<rparr>]
      else [])"
  by (simp add: pr_label_def pr_label_run_world EXECUTABLE_def py_bind_def logger_info_def
      split: option.splits list.splits)

lemma pr_label_files:
  "files (snd (pr_label E add_labels remove_labels pr_number s)) = files s"
  by (simp add: pr_label_def pr_label_run_world EXECUTABLE_def py_bind_def logger_info_def
      split: option.splits list.splits)

lemma pr_label_returns:
  "fst (pr_label E add_labels remove_labels pr_number s) = Inr ()"
  by (simp add: pr_label_def pr_label_run_world EXECUTABLE_def py_bind_def logger_info_def
      split: option.splits list.splits)

subsection \<open>\<^verbatim>\<open>pr_comment\<close>\<close>

lemma comment_handler:
  "(case e of
      CalledProcessError returncode \<Rightarrow>
        logger_error [Lit ''Failed to comment: returned '', FInt returncode, Lit ''.'']
    | _ \<Rightarrow> logger_error [Lit ''Failed to comment: '', FExn e]) s =
   (Inr (), s\<lparr>log := log s @ [(ERROR, comment_failed e)]\<rparr>)"
  by (cases e) (simp_all add: logger_error_def comment_failed_def)

lemma pr_comment_returns: "fst (pr_comment E body edit_last pr_number s) = Inr ()"
  unfolding pr_comment_def py_try_def
  by (simp add: comment_handler py_defs Let_def split: sum.splits write_outcome.splits)

lemma pr_comment_calls:
  "calls (snd (pr_comment E body edit_last pr_number s)) =
     (if open_write E (files s) ''reply.md'' body = Written then
        calls s @
        [\<lparr>cmd = [''gh'', ''pr'', ''comment'', pr_number, ''--body-file'', ''reply.md'']
                 @ (if edit_last then [''--edit-last''] else []),
          files_at = (files s)(''reply.md'' \<mapsto> body)\<rparr>]
      else calls s)"
  unfolding pr_comment_def py_try_def
  by (simp add: comment_handler py_defs Let_def EXECUTABLE_def
      split: sum.splits write_outcome.splits)

lemma pr_comment_files:
  "files (snd (pr_comment E body edit_last pr_number s)) =
     (case open_write E (files s) ''reply.md'' body of
        Written \<Rightarrow> (files s)(''reply.md'' \<mapsto> body)
      | OpenFailed e \<Rightarrow> files s
      | WriteFailed e part \<Rightarrow> (files s)(''reply.md'' \<mapsto> part))"
  unfolding pr_comment_def py_try_def
  by (simp add: comment_handler py_defs Let_def EXECUTABLE_def
      split: sum.splits write_outcome.splits)

lemma pr_comment_case:
  "(case pr_comment E body edit_last pr_number s of
      (Inl e, s') \<Rightarrow> f e s' | (Inr x, s') \<Rightarrow> g x s') =
   g () (snd (pr_comment E body edit_last pr_number s))"
  using pr_comment_returns [of E body edit_last pr_number s]
  by (cases "pr_comment E body edit_last pr_number s") auto

lemma pr_comment_pair:
  "(Inr (), snd (pr_comment E body edit_last pr_number s)) = pr_comment E body edit_last pr_number s"
  using pr_comment_returns [of E body edit_last pr_number s]
  by (cases "pr_comment E body edit_last pr_number s") auto

subsection \<open>\<^verbatim>\<open>pr_update_or_comment\<close>\<close>

lemma check_handler:
  "(case e of
      CalledProcessError returncode \<Rightarrow>
        logger_error [Lit ''Failed to check last comment: returned '', FInt returncode, Lit ''.'']
    | _ \<Rightarrow> logger_error [Lit ''Failed to check last comment: '', FExn e]) s =
   (Inr (), s\<lparr>log := log s @ [(ERROR, check_failed e)]\<rparr>)"
  by (cases e) (simp_all add: logger_error_def check_failed_def)

lemma pr_update_or_comment_world:
  "pr_update_or_comment E user body pr_number sign s =
     (let s1 = s\<lparr>calls := calls s @ [\<lparr>cmd = view_cmd user pr_number sign, files_at = files s\<rparr>]\<rparr> in
      case subprocess_check_output E (calls s) (view_cmd user pr_number sign) (files s) of
        Inl e \<Rightarrow> (Inr (), s1\<lparr>log := log s1 @ [(ERROR, check_failed e)]\<rparr>)
      | Inr out \<Rightarrow>
          (case bytes_decode E out of
             Inl e \<Rightarrow> (Inr (), s1\<lparr>log := log s1 @ [(ERROR, check_failed e)]\<rparr>)
           | Inr t \<Rightarrow>
               if startswith t ''true'' then
                 pr_comment E body True pr_number
                   (s1\<lparr>log := log s1 @ [(INFO, [Lit ''Updating last comment of '', FStr user,
                                                 Lit '' on PR: #'', FStr pr_number])]\<rparr>)
               else pr_comment E body False pr_number s1))"
  unfolding pr_update_or_comment_def py_try_def py_bind_def check_output_def decode_def
    logger_info_def Let_def
  by (simp add: check_handler pr_comment_case pr_comment_pair split: sum.splits)

subsection \<open>\<^verbatim>\<open>check_contributor\<close>\<close>

lemma subscripts_field: "subscripts v ks = Inr w \<longleftrightarrow> field v ks = Some w"
  by (induction v ks rule: field.induct) (auto split: option.splits)

lemma check_contributor_result:
  "fst (check_contributor E pr_number s) =
     (case fetched E pr_number s of
        Inl e \<Rightarrow> Inr (JNull, False)
      | Inr j \<Rightarrow>
          (case subscripts j login_path of
             Inl e \<Rightarrow> Inr (JNull, False)
           | Inr l \<Rightarrow>
               (case subscripts j association_path of
                  Inl e \<Rightarrow> Inr (JNull, False)
                | Inr a \<Rightarrow>
                    (case upper_method E a of
                       Inl e \<Rightarrow> Inr (JNull, False)
                     | Inr u \<Rightarrow> Inr (l, u = ''FIRST_TIME_CONTRIBUTOR'')))))"
  by (simp add: check_contributor_def fetched_def py_defs Let_def split: sum.splits)

lemma subscripts_missing: "field v ks = None \<Longrightarrow> \<exists>e. subscripts v ks = Inl e"
  using subscripts_field [of v ks] by (cases "subscripts v ks") auto

lemma upper_method_not_str: "\<not> is_str v \<Longrightarrow> \<exists>e. upper_method E v = Inl e"
  by (cases v) simp_all

subsection \<open>The example runs\<close>

lemmas example_defs = example_env_def example_world_def parse_only_def example_doc_def

lemma fetched_alex:
  "fetched env_alex ''7'' example_world =
     Inr (example_doc (JStr ''Alex326'') (JStr ''first_time_contributor''))"
  by (simp add: fetched_def env_alex_def example_env_def parse_only_def)

lemma fetched_member:
  "fetched env_member ''7'' example_world =
     Inr (example_doc (JStr ''Fallen_Breath'') (JStr ''MEMBER''))"
  by (simp add: fetched_def env_member_def example_env_def parse_only_def)

lemma fetched_dotless:
  "fetched env_dotless ''7'' example_world =
     Inr (example_doc (JStr ''Alex326'') (JStr dotless_association))"
  by (simp add: fetched_def env_dotless_def example_env_def parse_only_def)

lemma fetched_null_association:
  "fetched env_null_association ''7'' example_world = Inr (example_doc (JStr ''Alex326'') JNull)"
  by (simp add: fetched_def env_null_association_def example_env_def parse_only_def)

lemma example_upper_values:
  "example_upper ''first_time_contributor'' = ''FIRST_TIME_CONTRIBUTOR''"
  "example_upper ''FIRST_TIME_CONTRIBUTOR'' = ''FIRST_TIME_CONTRIBUTOR''"
  "example_upper ''MEMBER'' = ''MEMBER''"
  "example_upper dotless_association = ''FIRST_TIME_CONTRIBUTOR''"
  by (simp_all add: example_upper_def ascii_upper_char_def dotless_association_def)

lemma str_upper_example: "str_upper (example_env out parse) = example_upper"
  by (simp add: example_env_def)

lemma field_example_doc:
  "field (example_doc l a) login_path = Some l"
  "field (example_doc l a) association_path = Some a"
  by (simp_all add: example_doc_def login_path_def association_path_def)

lemma fetched_exit1: "fetched env_exit1 ''7'' example_world = Inl (CalledProcessError 1)"
  by (simp add: fetched_def env_exit1_def example_env_def)

lemma fetched_malformed:
  "fetched env_malformed ''7'' example_world = Inl (JSONDecodeError ''gh: not json'')"
  by (simp add: fetched_def env_malformed_def example_env_def parse_only_def)

lemma fetched_no_login: "fetched env_no_login ''7'' example_world = Inr no_login_doc"
  by (simp add: fetched_def env_no_login_def example_env_def parse_only_def)

lemma field_no_login: "field no_login_doc login_path = None"
  by (simp add: no_login_doc_def login_path_def)

lemma fetched_exit1_any: "fetched env_exit1 pr_number s = Inl (CalledProcessError 1)"
  by (simp add: fetched_def env_exit1_def example_env_def)

section \<open>The claims\<close>

text \<open>
  C1. In every call of \<^verbatim>\<open>pr_label\<close>: when \<^verbatim>\<open>add_labels\<close> is a list with an element, the
  one command run is \<^verbatim>\<open>gh pr edit <pr_number> --add-label <labels joined by commas>\<close>,
  whatever \<^verbatim>\<open>remove_labels\<close> holds; otherwise, when \<^verbatim>\<open>remove_labels\<close> is a list with
  an element, the one command run is the same with \<^verbatim>\<open>--remove-label\<close> and those labels;
  otherwise the tool is not run at all.
\<close>

theorem pr_label_command:
  "calls (snd (pr_label E add_labels remove_labels pr_number s)) =
     calls s @
     (if add_labels \<notin> {None, Some []} then
        [\<lparr>cmd = [''gh'', ''pr'', ''edit'', pr_number, ''--add-label'', join '','' (the add_labels)],
          files_at = files s\<rparr>]
      else if remove_labels \<notin> {None, Some []} then
        [\<lparr>cmd = [''gh'', ''pr'', ''edit'', pr_number, ''--remove-label'', join '','' (the remove_labels)],
          files_at = files s\<rparr>]
      else [])"
  by (rule pr_label_calls)

text \<open>
  The scenario of the specification: adding \<^verbatim>\<open>bug\<close> while \<^verbatim>\<open>stale\<close> is to be removed
  runs \<^verbatim>\<open>--add-label bug\<close> only; with no label to add or remove nothing is run.
\<close>

theorem pr_label_command_witness:
  "map cmd (calls (snd (pr_label (example_env (Inr ''ok'') (parse_only [] JNull))
      (Some [''bug'']) (Some [''stale'']) ''7'' example_world))) =
     [[''gh'', ''pr'', ''edit'', ''7'', ''--add-label'', ''bug'']]
   \<and> calls (snd (pr_label (example_env (Inr ''ok'') (parse_only [] JNull))
      (Some []) None ''7'' example_world)) = []"
  using pr_label_command [of "example_env (Inr ''ok'') (parse_only [] JNull)"
      "Some [''bug'']" "Some [''stale'']" "''7''" example_world]
    pr_label_command [of "example_env (Inr ''ok'') (parse_only [] JNull)"
      "Some []" None "''7''" example_world]
  by (simp add: example_world_def)

text \<open>
  C2. When the query of \<^verbatim>\<open>pr_update_or_comment\<close> returns output that decodes to a text
  \<open>t\<close>: if \<open>t\<close> starts with \<^verbatim>\<open>true\<close>, the operation logs the update and is the call of
  \<^verbatim>\<open>pr_comment\<close> with \<^verbatim>\<open>edit_last=True\<close>; for every other \<open>t\<close> it is the call of
  \<^verbatim>\<open>pr_comment\<close> with \<^verbatim>\<open>edit_last=False\<close>. Either call is made in the world in which
  the query has been recorded.
\<close>

theorem pr_update_or_comment_delegates:
  assumes "subprocess_check_output E (calls s) (view_cmd user pr_number sign) (files s) = Inr out"
    and "bytes_decode E out = Inr t"
  shows "pr_update_or_comment E user body pr_number sign s =
     (if startswith t ''true'' then
        pr_comment E body True pr_number
          (s\<lparr>calls := calls s @ [\<lparr>cmd = view_cmd user pr_number sign, files_at = files s\<rparr>],
             log := log s @ [(INFO, [Lit ''Updating last comment of '', FStr user,
                                     Lit '' on PR: #'', FStr pr_number])]\<rparr>)
      else
        pr_comment E body False pr_number
          (s\<lparr>calls := calls s @ [\<lparr>cmd = view_cmd user pr_number sign, files_at = files s\<rparr>]\<rparr>))"
  using assms by (simp add: pr_update_or_comment_world Let_def)

text \<open>
  The scenario of the specification: user \<^verbatim>\<open>bot\<close>, body \<^verbatim>\<open>hi\<close>, sign \<^verbatim>\<open>[sig]\<close>, and the
  query answers \<^verbatim>\<open>true\<close> and a newline; and the same with the answer \<^verbatim>\<open>false\<close>.
\<close>

theorem pr_update_or_comment_delegates_witness:
  "pr_update_or_comment env_true ''bot'' ''hi'' ''7'' ''[sig]'' example_world =
     pr_comment env_true ''hi'' True ''7''
       (example_world\<lparr>calls := [\<lparr>cmd = view_cmd ''bot'' ''7'' ''[sig]'', files_at = Map.empty\<rparr>],
          log := [(INFO, [Lit ''Updating last comment of '', FStr ''bot'',
                          Lit '' on PR: #'', FStr ''7''])]\<rparr>)
   \<and> pr_update_or_comment env_false ''bot'' ''hi'' ''7'' ''[sig]'' example_world =
     pr_comment env_false ''hi'' False ''7''
       (example_world\<lparr>calls := [\<lparr>cmd = view_cmd ''bot'' ''7'' ''[sig]'', files_at = Map.empty\<rparr>]\<rparr>)"
  using pr_update_or_comment_delegates [of env_true example_world "''bot''" "''7''" "''[sig]''"
      "''true'' @ [CHR 0x0A]" "''true'' @ [CHR 0x0A]" "''hi''"]
    pr_update_or_comment_delegates [of env_false example_world "''bot''" "''7''" "''[sig]''"
      "''false'' @ [CHR 0x0A]" "''false'' @ [CHR 0x0A]" "''hi''"]
  by (simp add: env_true_def env_false_def example_defs startswith_def)

text \<open>
  C3, as stated, fails: with the tool succeeding and both fields present, an association
  that is not a string (here null) makes \<^verbatim>\<open>check_contributor\<close> return
  \<^verbatim>\<open>(None, False)\<close>, not the login with \<^verbatim>\<open>False\<close>.
\<close>

theorem check_contributor_null_association_counterexample:
  "fetched env_null_association ''7'' example_world = Inr (example_doc (JStr ''Alex326'') JNull)
   \<and> field (example_doc (JStr ''Alex326'') JNull) login_path = Some (JStr ''Alex326'')
   \<and> field (example_doc (JStr ''Alex326'') JNull) association_path = Some JNull
   \<and> fst (check_contributor env_null_association ''7'' example_world) = Inr (JNull, False)"
  by (simp add: check_contributor_result fetched_null_association field_example_doc
      example_doc_def login_path_def association_path_def)

text \<open>
  C3, amended. When the tool succeeds, its output decodes and parses, and the login field
  and the association field are present: if the association is a string,
  \<^verbatim>\<open>check_contributor\<close> returns the login, with \<^verbatim>\<open>True\<close> exactly when the upper case
  form of the association (\<^verbatim>\<open>str.upper\<close>, the comparison without regard to case that the
  code makes) is \<^verbatim>\<open>FIRST_TIME_CONTRIBUTOR\<close>, and with \<^verbatim>\<open>False\<close> for every other
  string; if the association is not a string, it returns \<^verbatim>\<open>(None, False)\<close>.
\<close>

theorem check_contributor_first_time:
  assumes "fetched E pr_number s = Inr j"
    and "field j login_path = Some l"
    and "field j association_path = Some v"
  shows "fst (check_contributor E pr_number s) =
     (case v of
        JStr a \<Rightarrow> Inr (l, str_upper E a = ''FIRST_TIME_CONTRIBUTOR'')
      | _ \<Rightarrow> Inr (JNull, False))"
proof -
  have "subscripts j login_path = Inr l" "subscripts j association_path = Inr v"
    using assms by (simp_all add: subscripts_field)
  then show ?thesis
    using assms(1) by (cases v) (simp_all add: check_contributor_result)
qed

text \<open>
  The tool answers with login \<^verbatim>\<open>Alex326\<close> and the association in lower case; with a
  login whose association is \<^verbatim>\<open>MEMBER\<close>; and with the association written with the
  dotless i, which \<^verbatim>\<open>str.upper\<close> maps to \<^verbatim>\<open>I\<close>.
\<close>

theorem check_contributor_first_time_witness:
  "fst (check_contributor env_alex ''7'' example_world) = Inr (JStr ''Alex326'', True)
   \<and> fst (check_contributor env_member ''7'' example_world) = Inr (JStr ''Fallen_Breath'', False)
   \<and> fst (check_contributor env_dotless ''7'' example_world) = Inr (JStr ''Alex326'', True)"
  using check_contributor_first_time [OF fetched_alex field_example_doc]
    check_contributor_first_time [OF fetched_member field_example_doc]
    check_contributor_first_time [OF fetched_dotless field_example_doc]
  by (simp add: env_alex_def env_member_def env_dotless_def str_upper_example
      example_upper_values)

text \<open>
  C4. When the tool raises (a non-zero exit is \<open>CalledProcessError\<close>), or its output does
  not decode or is not JSON, or the login field or the association field is missing (or
  the association is there and is not a string), \<^verbatim>\<open>check_contributor\<close> returns
  \<^verbatim>\<open>(None, False)\<close>; it returns, it does not raise.
\<close>

theorem check_contributor_failure:
  assumes "(\<exists>e. fetched E pr_number s = Inl e)
     \<or> (\<exists>j. fetched E pr_number s = Inr j
           \<and> (field j login_path = None \<or> field j association_path = None
                \<or> (\<exists>v. field j association_path = Some v \<and> \<not> is_str v)))"
  shows "fst (check_contributor E pr_number s) = Inr (JNull, False)"
  using assms
proof (elim disjE exE conjE)
  fix e assume "fetched E pr_number s = Inl e"
  then show ?thesis by (simp add: check_contributor_result)
next
  fix j assume "fetched E pr_number s = Inr j" "field j login_path = None"
  then show ?thesis
    using subscripts_missing [of j login_path] by (auto simp: check_contributor_result)
next
  fix j assume "fetched E pr_number s = Inr j" "field j association_path = None"
  then show ?thesis
    using subscripts_missing [of j association_path]
    by (auto simp: check_contributor_result split: sum.splits)
next
  fix j v assume "fetched E pr_number s = Inr j" "field j association_path = Some v" "\<not> is_str v"
  then show ?thesis
    using upper_method_not_str [of v E] subscripts_field [of j association_path v]
    by (auto simp: check_contributor_result split: sum.splits)
qed

text \<open>
  The tool exits with code 1; the output is not JSON; the author is null, so that the
  login is missing.
\<close>

theorem check_contributor_failure_witness:
  "fst (check_contributor env_exit1 ''7'' example_world) = Inr (JNull, False)
   \<and> fst (check_contributor env_malformed ''7'' example_world) = Inr (JNull, False)
   \<and> fst (check_contributor env_no_login ''7'' example_world) = Inr (JNull, False)"
  using check_contributor_failure [of env_exit1 "''7''" example_world]
    check_contributor_failure [of env_malformed "''7''" example_world]
    check_contributor_failure [of env_no_login "''7''" example_world]
  by (simp add: fetched_exit1 fetched_malformed fetched_no_login field_no_login)

text \<open>
  C5. \<^verbatim>\<open>pr_comment\<close> runs the tool only after the body has been written: when the write
  succeeds there is one invocation, its command is
  \<^verbatim>\<open>gh pr comment <pr_number> --body-file reply.md\<close> followed by \<^verbatim>\<open>--edit-last\<close> exactly
  when \<^verbatim>\<open>edit_last\<close> is true, and at that moment \<^verbatim>\<open>reply.md\<close> holds the whole body;
  when the write fails the tool is not run. So in every invocation made by the call the
  file holds the body, and \<^verbatim>\<open>--edit-last\<close> is among the arguments that follow the pull
  request number exactly when \<^verbatim>\<open>edit_last\<close> is true.
\<close>

theorem pr_comment_invocation:
  "calls (snd (pr_comment E body edit_last pr_number s)) =
     (if open_write E (files s) ''reply.md'' body = Written then
        calls s @
        [\<lparr>cmd = [''gh'', ''pr'', ''comment'', pr_number, ''--body-file'', ''reply.md'']
                 @ (if edit_last then [''--edit-last''] else []),
          files_at = (files s)(''reply.md'' \<mapsto> body)\<rparr>]
      else calls s)
   \<and> (\<forall>i \<in> set (drop (length (calls s)) (calls (snd (pr_comment E body edit_last pr_number s)))).
         files_at i ''reply.md'' = Some body
         \<and> (''--edit-last'' \<in> set (drop 4 (cmd i)) \<longleftrightarrow> edit_last))"
  by (simp add: pr_comment_calls)

text \<open>
  Commenting with and without \<^verbatim>\<open>edit_last\<close>, and on a full disk.
\<close>

theorem pr_comment_invocation_witness:
  "calls (snd (pr_comment env_true ''hi'' True ''7'' example_world)) =
     [\<lparr>cmd = [''gh'', ''pr'', ''comment'', ''7'', ''--body-file'', ''reply.md'', ''--edit-last''],
       files_at = [''reply.md'' \<mapsto> ''hi'']\<rparr>]
   \<and> calls (snd (pr_comment env_true ''hi'' False ''7'' example_world)) =
     [\<lparr>cmd = [''gh'', ''pr'', ''comment'', ''7'', ''--body-file'', ''reply.md''],
       files_at = [''reply.md'' \<mapsto> ''hi'']\<rparr>]
   \<and> calls (snd (pr_comment env_disk_full ''hi'' True ''7'' example_world)) = []"
  using pr_comment_invocation [of env_true "''hi''" True "''7''" example_world]
    pr_comment_invocation [of env_true "''hi''" False "''7''" example_world]
    pr_comment_invocation [of env_disk_full "''hi''" True "''7''" example_world]
  by (simp add: env_true_def env_disk_full_def example_env_def example_world_def)

text \<open>
  C6. None of the four operations raises, whatever the tool, the decoding, the parser and
  the file system do: the three command operations return \<^verbatim>\<open>None\<close>, and
  \<^verbatim>\<open>check_contributor\<close> returns a pair, which is \<^verbatim>\<open>(None, False)\<close> when fetching the
  document failed.
\<close>

theorem no_exception_propagates:
  "fst (pr_comment E body edit_last pr_number s) = Inr ()
   \<and> fst (pr_update_or_comment E user body pr_number sign s) = Inr ()
   \<and> fst (pr_label E add_labels remove_labels pr_number s) = Inr ()
   \<and> (\<exists>v b. fst (check_contributor E pr_number s) = Inr (v, b))
   \<and> ((\<exists>e. fetched E pr_number s = Inl e) \<longrightarrow>
        fst (check_contributor E pr_number s) = Inr (JNull, False))"
proof (intro conjI)
  show "fst (pr_comment E body edit_last pr_number s) = Inr ()"
    by (rule pr_comment_returns)
  show "fst (pr_update_or_comment E user body pr_number sign s) = Inr ()"
    by (simp add: pr_update_or_comment_world Let_def pr_comment_returns split: sum.splits)
  show "fst (pr_label E add_labels remove_labels pr_number s) = Inr ()"
    by (rule pr_label_returns)
  show "\<exists>v b. fst (check_contributor E pr_number s) = Inr (v, b)"
    by (auto simp: check_contributor_result split: sum.splits)
  show "(\<exists>e. fetched E pr_number s = Inl e) \<longrightarrow>
        fst (check_contributor E pr_number s) = Inr (JNull, False)"
    by (auto simp: check_contributor_result)
qed

text \<open>
  The tool exits with code 1, and the disk is full.
\<close>

theorem no_exception_propagates_witness:
  "fst (pr_comment env_exit1 ''hi'' False ''7'' example_world) = Inr ()
   \<and> fst (pr_comment env_disk_full ''hi'' False ''7'' example_world) = Inr ()
   \<and> fst (pr_update_or_comment env_exit1 ''bot'' ''hi'' ''7'' ''[sig]'' example_world) = Inr ()
   \<and> fst (pr_label env_exit1 (Some [''bug'']) None ''7'' example_world) = Inr ()
   \<and> fst (check_contributor env_exit1 ''7'' example_world) = Inr (JNull, False)"
  using no_exception_propagates [of env_exit1 "''hi''" False "''7''" example_world
      "''bot''" "''[sig]''" "Some [''bug'']" None]
    no_exception_propagates [of env_disk_full "''hi''" False "''7''" example_world
      "''bot''" "''[sig]''" "Some [''bug'']" None]
  by (simp add: fetched_exit1_any)

text \<open>
  C7, as stated, fails: \<^verbatim>\<open>pr_comment\<close> never deletes \<^verbatim>\<open>reply.md\<close>. After a call in a
  fresh directory the file is there and holds the body.
\<close>

theorem pr_comment_file_persists_counterexample:
  "files (snd (pr_comment env_true ''hi'' False ''7'' example_world)) ''reply.md'' = Some ''hi''"
  by (simp add: pr_comment_files env_true_def example_env_def example_world_def)

text \<open>
  C7, amended. A call of \<^verbatim>\<open>pr_comment\<close> whose write succeeds leaves the files of the
  working directory as they were, except that the one file \<^verbatim>\<open>reply.md\<close> holds the new body
  in place of whatever it held: the file is overwritten by each call and stays after it.
\<close>

theorem pr_comment_file_kept:
  assumes "open_write E (files s) ''reply.md'' body = Written"
  shows "files (snd (pr_comment E body edit_last pr_number s)) = (files s)(''reply.md'' \<mapsto> body)"
  using assms by (simp add: pr_comment_files)

text \<open>
  A directory in which \<^verbatim>\<open>reply.md\<close> holds the body of an earlier call.
\<close>

theorem pr_comment_file_kept_witness:
  "files (snd (pr_comment env_true ''new'' False ''7''
      (example_world\<lparr>files := [''reply.md'' \<mapsto> ''old'', ''plugin.json'' \<mapsto> ''{}'']\<rparr>))) =
     [''reply.md'' \<mapsto> ''new'', ''plugin.json'' \<mapsto> ''{}'']"
  using pr_comment_file_kept [of env_true
      "example_world\<lparr>files := [''reply.md'' \<mapsto> ''old'', ''plugin.json'' \<mapsto> ''{}'']\<rparr>"
      "''new''" False "''7''"]
  by (simp add: env_true_def example_env_def example_world_def fun_upd_twist)

text \<open>
  C8, as stated, fails: when the tool answers with a null login and the association
  \<^verbatim>\<open>FIRST_TIME_CONTRIBUTOR\<close>, \<^verbatim>\<open>check_contributor\<close> returns \<^verbatim>\<open>(None, True)\<close>.
\<close>

theorem check_contributor_none_true_counterexample:
  "fst (check_contributor env_null_login ''7'' example_world) = Inr (JNull, True)"
  by (simp add: check_contributor_result fetched_def env_null_login_def example_env_def
      parse_only_def example_doc_def login_path_def association_path_def example_upper_values)

text \<open>
  C8, amended. Whenever the second component of the result is true, the tool succeeded,
  its output parsed, and the first component is the value of the login field of the
  document (every failure gives \<^verbatim>\<open>(None, False)\<close>). That value is not checked: it is
  \<^verbatim>\<open>None\<close> when the field is null.
\<close>

theorem check_contributor_true_login:
  assumes "fst (check_contributor E pr_number s) = Inr (l, True)"
  shows "\<exists>j. fetched E pr_number s = Inr j \<and> field j login_path = Some l"
proof -
  from assms obtain j where j: "fetched E pr_number s = Inr j"
    by (cases "fetched E pr_number s") (simp_all add: check_contributor_result)
  from assms j obtain l' where l': "subscripts j login_path = Inr l'"
    by (cases "subscripts j login_path") (simp_all add: check_contributor_result)
  from assms j l' obtain v where v: "subscripts j association_path = Inr v"
    by (cases "subscripts j association_path") (simp_all add: check_contributor_result)
  from assms j l' v obtain u where u: "upper_method E v = Inr u"
    by (cases "upper_method E v") (simp_all add: check_contributor_result)
  from assms j l' v u have "l' = l"
    by (simp add: check_contributor_result)
  then show ?thesis
    using j l' by (auto simp: subscripts_field)
qed

text \<open>
  The run with login \<^verbatim>\<open>Alex326\<close>.
\<close>

theorem check_contributor_true_login_witness:
  "fst (check_contributor env_alex ''7'' example_world) = Inr (JStr ''Alex326'', True)
   \<and> (\<exists>j. fetched env_alex ''7'' example_world = Inr j
     \<and> field j login_path = Some (JStr ''Alex326''))"
proof -
  have u: "str_upper env_alex = example_upper"
    by (simp add: env_alex_def str_upper_example)
  have r: "fst (check_contributor env_alex ''7'' example_world) = Inr (JStr ''Alex326'', True)"
    by (simp add: check_contributor_result fetched_alex example_doc_def login_path_def
        association_path_def u example_upper_values)
  show ?thesis
    using r check_contributor_true_login [OF r] by simp
qed

text \<open>
  C9. When the query of \<^verbatim>\<open>pr_update_or_comment\<close> itself raises, the operation records
  the query, logs one error and returns: no file is written, no comment command is run,
  \<^verbatim>\<open>pr_comment\<close> is not called.
\<close>

theorem pr_update_or_comment_query_fails:
  assumes "subprocess_check_output E (calls s) (view_cmd user pr_number sign) (files s) = Inl e"
  shows "pr_update_or_comment E user body pr_number sign s =
     (Inr (),
      s\<lparr>calls := calls s @ [\<lparr>cmd = view_cmd user pr_number sign, files_at = files s\<rparr>],
        log := log s @ [(ERROR, check_failed e)]\<rparr>)"
  using assms by (simp add: pr_update_or_comment_world Let_def)

text \<open>
  The query exits with code 1.
\<close>

theorem pr_update_or_comment_query_fails_witness:
  "pr_update_or_comment env_exit1 ''bot'' ''hi'' ''7'' ''[sig]'' example_world =
     (Inr (),
      \<lparr>files = Map.empty,
       log = [(ERROR, [Lit ''Failed to check last comment: returned '', FInt 1, Lit ''.''])],
       calls = [\<lparr>cmd = view_cmd ''bot'' ''7'' ''[sig]'', files_at = Map.empty\<rparr>]\<rparr>)"
  using pr_update_or_comment_query_fails [of env_exit1 example_world "''bot''" "''7''" "''[sig]''"
      "CalledProcessError 1" "''hi''"]
  by (simp add: env_exit1_def example_defs check_failed_def)

text \<open>
  C10. A call of \<^verbatim>\<open>pr_label\<close> with a list of one or more labels runs a command of six
  arguments: \<^verbatim>\<open>gh pr edit <pr_number>\<close>, then \<^verbatim>\<open>--add-label\<close> (or \<^verbatim>\<open>--remove-label\<close>,
  when there is nothing to add), then one argument that is the labels joined by commas.
  Joining the label \<^verbatim>\<open>a,b\<close> gives what joining the two labels \<^verbatim>\<open>a\<close> and \<^verbatim>\<open>b\<close> gives,
  so the two calls make the very same invocation.
\<close>

theorem pr_label_comma:
  "calls (snd (pr_label E (Some (l # ls)) remove_labels pr_number s)) =
     calls s @
     [\<lparr>cmd = [''gh'', ''pr'', ''edit'', pr_number, ''--add-label'', join '','' (l # ls)],
       files_at = files s\<rparr>]
   \<and> calls (snd (pr_label E None (Some (l # ls)) pr_number s)) =
     calls s @
     [\<lparr>cmd = [''gh'', ''pr'', ''edit'', pr_number, ''--remove-label'', join '','' (l # ls)],
       files_at = files s\<rparr>]
   \<and> calls (snd (pr_label E (Some []) (Some (l # ls)) pr_number s)) =
     calls s @
     [\<lparr>cmd = [''gh'', ''pr'', ''edit'', pr_number, ''--remove-label'', join '','' (l # ls)],
       files_at = files s\<rparr>]
   \<and> join '','' (xs @ [a @ '','' @ b] @ ys) = join '','' (xs @ [a, b] @ ys)
   \<and> calls (snd (pr_label E (Some (xs @ [a @ '','' @ b] @ ys)) remove_labels pr_number s)) =
     calls (snd (pr_label E (Some (xs @ [a, b] @ ys)) remove_labels pr_number s))
   \<and> calls (snd (pr_label E None (Some (xs @ [a @ '','' @ b] @ ys)) pr_number s)) =
     calls (snd (pr_label E None (Some (xs @ [a, b] @ ys)) pr_number s))"
  using join_comma_split [of xs a b ys] by (simp add: pr_label_calls)

text \<open>
  The labels \<^verbatim>\<open>a,b\<close> and \<^verbatim>\<open>c\<close>, and the labels \<^verbatim>\<open>a\<close>, \<^verbatim>\<open>b\<close> and \<^verbatim>\<open>c\<close>: either way
  the tool is given the one argument \<^verbatim>\<open>a,b,c\<close>.
\<close>

theorem pr_label_comma_witness:
  "map cmd (calls (snd (pr_label env_true (Some [''a,b'', ''c'']) None ''7'' example_world))) =
     [[''gh'', ''pr'', ''edit'', ''7'', ''--add-label'', ''a,b,c'']]
   \<and> map cmd (calls (snd (pr_label env_true (Some [''a'', ''b'', ''c'']) None ''7'' example_world))) =
     [[''gh'', ''pr'', ''edit'', ''7'', ''--add-label'', ''a,b,c'']]
   \<and> map cmd (calls (snd (pr_label env_true None (Some [''a,b'', ''c'']) ''7'' example_world))) =
     [[''gh'', ''pr'', ''edit'', ''7'', ''--remove-label'', ''a,b,c'']]"
  using pr_label_comma [of env_true "''a,b''" "[''c'']" None "''7''" example_world]
    pr_label_comma [of env_true "''a''" "[''b'', ''c'']" None "''7''" example_world]
  by (simp add: example_world_def)

end
